theory Spec2Isabelle
  imports Main
begin

section \<open>Data model\<close>

text \<open>
  The product record of \<^verbatim>\<open>ProductCardProps\<close> (ProductCard.tsx, lines 7-26). The
  category is \<^verbatim>\<open>{id, name} | null\<close>, so it is optional here. The stock is a
  \<^verbatim>\<open>number\<close> that holds an integer quantity, negative values not excluded. The
  price is only ever passed to \<^verbatim>\<open>toLocaleString\<close>, whose result depends on the locale
  of the runtime: its type is a parameter \<open>'n\<close>. The field \<^verbatim>\<open>id\<close> is \<open>product_id\<close> here.
  Strings are byte sequences; text outside ASCII is written as its UTF-8 bytes.
\<close>

record CategoryRef =
  category_id :: int
  category_name :: string

datatype timestamp = DateString string | DateValue int

record 'n Product =
  product_id :: int
  name :: string
  category :: "CategoryRef option"
  description :: string
  price :: 'n
  stock :: int
  imageUrl :: string
  createdAt :: timestamp
  updatedAt :: timestamp

text \<open>
  What the component takes from the JavaScript runtime, an argument of the rendering
  functions: the locale's formatter of the price, and the text the runtime gives a
  number that holds an integer beyond the safe range (rounded digits, or the exponent
  form from \<open>10\<^sup>2\<^sup>1\<close> on).
\<close>

record 'n runtime =
  toLocaleString :: "'n \<Rightarrow> string"
  largeNumberToString :: "int \<Rightarrow> string"

text \<open>
  The optional props are options: \<open>None\<close> is a prop that was omitted. The two callbacks
  act on the state \<open>'w\<close> of whoever supplied them. The view mode is any string at run
  time; the type annotation \<^verbatim>\<open>'grid' | 'list'\<close> is not checked there.
\<close>

record ('n, 'w) ProductCardProps =
  product :: "'n Product option"
  isLiked :: "bool option"
  onLikeToggle :: "('w \<Rightarrow> 'w) option"
  viewMode :: "string option"
  onQuickView :: "(int \<Rightarrow> 'w \<Rightarrow> 'w) option"

section \<open>Numbers in template strings\<close>

text \<open>
  \<^verbatim>\<open>`${product.stock}`\<close> and \<^verbatim>\<open>`${product.id}`\<close> print a number. A safe integer, one
  of absolute value at most \<open>2\<^sup>5\<^sup>3 - 1\<close>, is printed with all its decimal digits and
  a leading minus sign when it is negative. Beyond that range the text is the
  runtime's: \<open>10\<^sup>2\<^sup>1\<close> is printed as \<^verbatim>\<open>1e+21\<close>.
\<close>

definition digit_char :: "nat \<Rightarrow> char" where
  "digit_char d =
     (if d = 0 then CHR ''0'' else if d = 1 then CHR ''1'' else if d = 2 then CHR ''2''
      else if d = 3 then CHR ''3'' else if d = 4 then CHR ''4'' else if d = 5 then CHR ''5''
      else if d = 6 then CHR ''6'' else if d = 7 then CHR ''7'' else if d = 8 then CHR ''8''
      else CHR ''9'')"

fun nat_to_string :: "nat \<Rightarrow> string" where
  "nat_to_string n =
     (if n < 10 then [digit_char n] else nat_to_string (n div 10) @ [digit_char (n mod 10)])"

declare nat_to_string.simps [simp del]

definition decimal :: "int \<Rightarrow> string" where
  "decimal i = (if i < 0 then CHR ''-'' # nat_to_string (nat (- i)) else nat_to_string (nat i))"

definition maxSafeInteger :: int where
  "maxSafeInteger = 9007199254740991"

definition number_to_string :: "'n runtime \<Rightarrow> int \<Rightarrow> string" where
  "number_to_string rt i =
     (if - maxSafeInteger \<le> i \<and> i \<le> maxSafeInteger then decimal i
      else largeNumberToString rt i)"

section \<open>Stock classification\<close>

text \<open>ProductCard.tsx, lines 39-40.\<close>

definition isOutOfStock :: "int \<Rightarrow> bool" where
  "isOutOfStock s \<longleftrightarrow> s \<le> 0"

definition isLowStock :: "int \<Rightarrow> bool" where
  "isLowStock s \<longleftrightarrow> s > 0 \<and> s \<le> 5"

text \<open>
  The third class has no variable of its own in the source: it is the last branch of
  the conditional chains \<^verbatim>\<open>isOutOfStock ? ... : isLowStock ? ... : ...\<close>.
\<close>

definition isInStock :: "int \<Rightarrow> bool" where
  "isInStock s \<longleftrightarrow> \<not> isOutOfStock s \<and> \<not> isLowStock s"

section \<open>Render trees\<close>

text \<open>
  What a component returns: text, or an element with props and children. Elements of
  other components (\<^verbatim>\<open>Link\<close>, \<^verbatim>\<open>Image\<close>, \<^verbatim>\<open>LikeButton\<close>, the icons, \<^verbatim>\<open>Slider\<close>,
  \<^verbatim>\<open>Category\<close>) are elements like the rest, named by their component. \<open>Component\<close>
  holds an element whose props are data of the model (the cards of the page). A
  handler prop names the function it is bound to; \<open>OnClick None\<close> is
  \<^verbatim>\<open>onClick={undefined}\<close>. A child written \<^verbatim>\<open>{cond && <x/>}\<close> is present when the
  condition holds and absent otherwise.
\<close>

datatype handler = HandleQuickView | OnLikeToggle | SetImageLoadingFalse

datatype attr =
    ClassName string
  | Href string
  | Src string
  | Alt string
  | Title string
  | Fill
  | Disabled bool
  | OnClick "handler option"
  | OnLoad handler
  | IsLikedProp bool
  | Layout string

datatype 'c node =
    Text string
  | Elem string "attr list" "'c node list"
  | Component 'c

section \<open>ProductCard\<close>

text \<open>The product link, \<^verbatim>\<open>`/shop/product/${product.id}`\<close> (lines 56, 85, 165, 211).\<close>

definition productHref :: "'n runtime \<Rightarrow> 'n Product \<Rightarrow> string" where
  "productHref rt p = ''/shop/product/'' @ number_to_string rt (product_id p)"

text \<open>The spinner shown while the image loads (lines 59-63 and 168-172).\<close>

definition spinner :: "bool \<Rightarrow> 'c node list" where
  "spinner imageLoading =
     (if imageLoading
      then [Elem ''div'' [ClassName ''absolute inset-0 flex items-center justify-center'']
              [Elem ''div''
                 [ClassName ''animate-spin rounded-full h-6 w-6 border-b-2 border-blue-600'']
                 []]]
      else [])"

text \<open>The image (lines 64-72 and 173-181).\<close>

definition productImage :: "'n Product \<Rightarrow> bool \<Rightarrow> 'c node" where
  "productImage p imageLoading =
     Elem ''Image''
       [Src (imageUrl p), Alt (name p), Fill,
        ClassName (''object-cover transition-opacity duration-200 ''
                   @ (if imageLoading then ''opacity-0'' else ''opacity-100'')),
        OnLoad SetImageLoadingFalse]
       []"

text \<open>The overlay on the image (lines 73-79 and 182-188).\<close>

definition outOfStockOverlay :: "'n Product \<Rightarrow> 'c node list" where
  "outOfStockOverlay p =
     (if isOutOfStock (stock p)
      then [Elem ''div''
              [ClassName
                 ''absolute inset-0 bg-black bg-opacity-50 flex items-center justify-center'']
              [Elem ''span'' [ClassName ''text-white text-sm font-medium'']
                 [Text ''Out of Stock'']]]
      else [])"

text \<open>
  The category line, \<^verbatim>\<open>product.category?.name ?? '...'\<close> (lines 96 and 218). The
  fallback is the Mongolian word for "uncategorized", ten Cyrillic letters, here in
  UTF-8.
\<close>

definition uncategorizedLabel :: string where
  "uncategorizedLabel =
     [CHR 0xD0, CHR 0x90, CHR 0xD0, CHR 0xBD, CHR 0xD0, CHR 0xB3, CHR 0xD0, CHR 0xB8,
      CHR 0xD0, CHR 0xBB, CHR 0xD0, CHR 0xB0, CHR 0xD0, CHR 0xBB, CHR 0xD0, CHR 0xB3,
      CHR 0xD2, CHR 0xAF, CHR 0xD0, CHR 0xB9]"

definition categoryLabel :: "'n Product \<Rightarrow> string" where
  "categoryLabel p =
     (case category p of None \<Rightarrow> uncategorizedLabel | Some c \<Rightarrow> category_name c)"

text \<open>The currency sign after the price, U+20AE (lines 106 and 243).\<close>

definition tugrik :: string where
  "tugrik = [CHR 0xE2, CHR 0x82, CHR 0xAE]"

text \<open>The colour and the text of the stock status (lines 113-125 and 225-237).\<close>

definition stockStatusColor :: "'n Product \<Rightarrow> string" where
  "stockStatusColor p =
     (if isOutOfStock (stock p) then ''text-red-600''
      else if isLowStock (stock p) then ''text-orange-600''
      else ''text-green-600'')"

definition stockStatusText :: "'n runtime \<Rightarrow> 'n Product \<Rightarrow> string" where
  "stockStatusText rt p =
     (if isOutOfStock (stock p) then ''Out of Stock''
      else if isLowStock (stock p) then ''Only '' @ number_to_string rt (stock p) @ '' left''
      else number_to_string rt (stock p) @ '' in stock'')"

text \<open>The class and the text of the add-to-cart button (lines 140-149 and 249-255).\<close>

definition addToCartColor :: "'n Product \<Rightarrow> string" where
  "addToCartColor p =
     (if isOutOfStock (stock p) then ''bg-gray-200 text-gray-500 cursor-not-allowed''
      else ''bg-rose-500 text-white hover:bg-rose-600'')"

definition addToCartText :: "'n Product \<Rightarrow> string" where
  "addToCartText p = (if isOutOfStock (stock p) then ''Unavailable'' else ''Add to Cart'')"

text \<open>The click prop of the like button, \<^verbatim>\<open>onClick={onLikeToggle}\<close> (lines 90 and 202).\<close>

definition likeClick :: "('n, 'w) ProductCardProps \<Rightarrow> attr" where
  "likeClick props = OnClick (map_option (\<lambda>_. OnLikeToggle) (onLikeToggle props))"

text \<open>The default of \<^verbatim>\<open>isLiked\<close> (line 30) and of \<^verbatim>\<open>viewMode\<close> (line 32).\<close>

definition isLikedOrDefault :: "('n, 'w) ProductCardProps \<Rightarrow> bool" where
  "isLikedOrDefault props = (case isLiked props of None \<Rightarrow> False | Some b \<Rightarrow> b)"

definition viewModeOrDefault :: "('n, 'w) ProductCardProps \<Rightarrow> string" where
  "viewModeOrDefault props = (case viewMode props of None \<Rightarrow> ''grid'' | Some m \<Rightarrow> m)"

text \<open>The list branch (lines 51-156).\<close>

definition listView ::
  "'n runtime \<Rightarrow> ('n, 'w) ProductCardProps \<Rightarrow> 'n Product \<Rightarrow> bool \<Rightarrow> 'c node" where
  "listView rt props p imageLoading =
     Elem ''div''
       [ClassName
          ''bg-white rounded-lg shadow-sm hover:shadow-md transition-shadow duration-200 p-6'']
       [Elem ''div'' [ClassName ''flex gap-6'']
          [Elem ''Link''
             [Href (productHref rt p),
              ClassName
                ''relative w-32 h-32 bg-gray-200 rounded-lg overflow-hidden flex-shrink-0'']
             (spinner imageLoading @ [productImage p imageLoading] @ outOfStockOverlay p),
           Elem ''div'' [ClassName ''flex-grow'']
             [Elem ''div'' [ClassName ''flex justify-between items-start mb-2'']
                [Elem ''Link'' [Href (productHref rt p)]
                   [Elem ''h3''
                      [ClassName
                         ''font-semibold text-lg text-gray-800 hover:text-blue-600 transition-colors'']
                      [Text (name p)]],
                 Elem ''button'' [likeClick props, ClassName ''p-1'']
                   [Elem ''LikeButton'' [IsLikedProp (isLikedOrDefault props)] []]],
              Elem ''p'' [ClassName ''text-sm text-gray-500 mb-2''] [Text (categoryLabel p)],
              Elem ''p'' [ClassName ''text-gray-600 text-sm mb-4 line-clamp-2'']
                [Text (description p)],
              Elem ''div'' [ClassName ''flex items-center justify-between'']
                [Elem ''div'' [ClassName ''flex items-center gap-4'']
                   [Elem ''span'' [ClassName ''font-bold text-xl text-gray-900'']
                      [Text (toLocaleString rt (price p)), Text tugrik],
                    Elem ''div'' [ClassName ''flex items-center gap-1'']
                      [Elem ''Package'' [ClassName ''h-4 w-4 text-gray-400''] [],
                       Elem ''span''
                         [ClassName (''text-sm font-medium '' @ stockStatusColor p)]
                         [Text (stockStatusText rt p)]]],
                 Elem ''div'' [ClassName ''flex items-center gap-2'']
                   [Elem ''button''
                      [OnClick (Some HandleQuickView),
                       ClassName
                         ''p-2 text-gray-600 hover:text-blue-600 hover:bg-blue-50 rounded-lg transition-colors'',
                       Title ''Quick View'']
                      [Elem ''Eye'' [ClassName ''h-4 w-4''] []],
                    Elem ''button''
                      [Disabled (isOutOfStock (stock p)),
                       ClassName
                         (''px-4 py-2 rounded-lg text-sm font-medium transition-colors ''
                          @ addToCartColor p)]
                      [Elem ''ShoppingCart'' [ClassName ''h-4 w-4 inline mr-2''] [],
                       Text (addToCartText p)]]]]]]"

text \<open>The grid branch (lines 160-259).\<close>

definition gridView ::
  "'n runtime \<Rightarrow> ('n, 'w) ProductCardProps \<Rightarrow> 'n Product \<Rightarrow> bool \<Rightarrow> 'c node" where
  "gridView rt props p imageLoading =
     Elem ''div''
       [ClassName
          ''bg-white rounded-xl shadow-md hover:shadow-lg transition-shadow duration-200 overflow-hidden group'']
       [Elem ''div'' [ClassName ''relative'']
          [Elem ''Link'' [Href (productHref rt p), ClassName ''relative block h-48 bg-gray-200'']
             (spinner imageLoading @ [productImage p imageLoading] @ outOfStockOverlay p),
           Elem ''button''
             [OnClick (Some HandleQuickView),
              ClassName
                ''absolute top-2 right-2 p-2 bg-white/80 hover:bg-white rounded-full opacity-0 group-hover:opacity-100 transition-opacity duration-200'',
              Title ''Quick View'']
             [Elem ''Eye'' [ClassName ''h-4 w-4 text-gray-700''] []],
           Elem ''button''
             [likeClick props,
              ClassName
                ''absolute top-2 left-2 p-2 bg-white/80 hover:bg-white rounded-full opacity-0 group-hover:opacity-100 transition-opacity duration-200'']
             [Elem ''LikeButton'' [IsLikedProp (isLikedOrDefault props)] []]],
        Elem ''div'' [ClassName ''p-4'']
          [Elem ''Link'' [Href (productHref rt p)]
             [Elem ''h3''
                [ClassName
                   ''font-medium text-base text-gray-800 hover:text-blue-600 transition-colors mb-2 line-clamp-2'']
                [Text (name p)]],
           Elem ''p'' [ClassName ''text-sm text-gray-500 mb-3''] [Text (categoryLabel p)],
           Elem ''div'' [ClassName ''flex items-center gap-1 mb-3'']
             [Elem ''Package'' [ClassName ''h-3 w-3 text-gray-400''] [],
              Elem ''span'' [ClassName (''text-xs font-medium '' @ stockStatusColor p)]
                [Text (stockStatusText rt p)]],
           Elem ''div'' [ClassName ''flex items-center justify-between mb-3'']
             [Elem ''span'' [ClassName ''font-bold text-lg text-gray-900'']
                [Text (toLocaleString rt (price p)), Text tugrik]],
           Elem ''button''
             [Disabled (isOutOfStock (stock p)),
              ClassName
                (''w-full py-2 text-sm rounded-lg font-medium transition-colors ''
                 @ addToCartColor p)]
             [Text (addToCartText p)]]]"

text \<open>
  The component (lines 28-260). The first argument is the runtime, the last one the
  current value of the \<^verbatim>\<open>imageLoading\<close> state. \<open>None\<close> is the
  \<^verbatim>\<open>null\<close> the component returns.
\<close>

definition ProductCard ::
  "'n runtime \<Rightarrow> ('n, 'w) ProductCardProps \<Rightarrow> bool \<Rightarrow> 'c node option" where
  "ProductCard rt props imageLoading =
     (case product props of
        None \<Rightarrow> None
      | Some p \<Rightarrow>
          if viewModeOrDefault props = ''list''
          then Some (listView rt props p imageLoading)
          else Some (gridView rt props p imageLoading))"

section \<open>Reading a render tree\<close>

text \<open>
  What a test of the component reads off the tree it renders: all nodes in document
  order, the text inside a node, a node's tag, children and props.
\<close>

primrec subnodes :: "'c node \<Rightarrow> 'c node list" where
  "subnodes (Text s) = [Text s]"
| "subnodes (Elem t as cs) = Elem t as cs # concat (map subnodes cs)"
| "subnodes (Component c) = [Component c]"

primrec textContent :: "'c node \<Rightarrow> string" where
  "textContent (Text s) = s"
| "textContent (Elem t as cs) = concat (map textContent cs)"
| "textContent (Component c) = []"

primrec components :: "'c node \<Rightarrow> 'c list" where
  "components (Text s) = []"
| "components (Elem t as cs) = concat (map components cs)"
| "components (Component c) = [c]"

fun hasTag :: "string \<Rightarrow> 'c node \<Rightarrow> bool" where
  "hasTag tg (Elem t as cs) = (t = tg)"
| "hasTag tg n = False"

fun children :: "'c node \<Rightarrow> 'c node list" where
  "children (Elem t as cs) = cs"
| "children n = []"

fun attrs :: "'c node \<Rightarrow> attr list" where
  "attrs (Elem t as cs) = as"
| "attrs n = []"

fun disabledProps :: "attr list \<Rightarrow> bool list" where
  "disabledProps [] = []"
| "disabledProps (Disabled b # as) = b # disabledProps as"
| "disabledProps (a # as) = disabledProps as"

fun classNames :: "attr list \<Rightarrow> string list" where
  "classNames [] = []"
| "classNames (ClassName c # as) = c # classNames as"
| "classNames (a # as) = classNames as"

fun clickProps :: "attr list \<Rightarrow> handler option list" where
  "clickProps [] = []"
| "clickProps (OnClick h # as) = h # clickProps as"
| "clickProps (a # as) = clickProps as"

text \<open>The nodes that come right after an element with the given tag, among siblings.\<close>

fun nextTo :: "string \<Rightarrow> 'c node list \<Rightarrow> 'c node list" where
  "nextTo tg (a # b # ns) = (if hasTag tg a then [b] else []) @ nextTo tg (b # ns)"
| "nextTo tg ns = []"

text \<open>
  The parts of a card that depend on the stock: the link around the image (the
  overlay is its only text), the stock status beside the \<^verbatim>\<open>Package\<close> icon, and the
  add-to-cart button, the only element with a \<^verbatim>\<open>disabled\<close> prop.
\<close>

definition imageLinks :: "'c node \<Rightarrow> 'c node list" where
  "imageLinks t = filter (\<lambda>n. hasTag ''Link'' n \<and> list_ex (hasTag ''Image'') (children n)) (subnodes t)"

definition stockStatusSpans :: "'c node \<Rightarrow> 'c node list" where
  "stockStatusSpans t = concat (map (\<lambda>n. nextTo ''Package'' (children n)) (subnodes t))"

definition addToCartButtons :: "'c node \<Rightarrow> 'c node list" where
  "addToCartButtons t = filter (\<lambda>n. disabledProps (attrs n) \<noteq> []) (subnodes t)"

text \<open>The category line is the first paragraph of either branch.\<close>

definition paragraphs :: "'c node \<Rightarrow> 'c node list" where
  "paragraphs t = filter (hasTag ''p'') (subnodes t)"

section \<open>Events of a card\<close>

text \<open>
  A click event, as far as the handler touches it: \<^verbatim>\<open>preventDefault()\<close> and
  \<^verbatim>\<open>stopPropagation()\<close> each set a flag that the dispatcher reads afterwards.
\<close>

record event =
  defaultPrevented :: bool
  propagationStopped :: bool

definition preventDefault :: "event \<Rightarrow> event" where
  "preventDefault e = e\<lparr>defaultPrevented := True\<rparr>"

definition stopPropagation :: "event \<Rightarrow> event" where
  "stopPropagation e = e\<lparr>propagationStopped := True\<rparr>"

text \<open>\<^verbatim>\<open>handleQuickView\<close> (lines 42-48): the event and the caller's state afterwards.\<close>

definition handleQuickView ::
  "('n, 'w) ProductCardProps \<Rightarrow> 'n Product \<Rightarrow> event \<Rightarrow> 'w \<Rightarrow> event \<times> 'w" where
  "handleQuickView props p e w =
     (let e1 = preventDefault e;
          e2 = stopPropagation e1
      in (e2, case onQuickView props of None \<Rightarrow> w | Some f \<Rightarrow> f (product_id p) w))"

text \<open>
  A callback for tests: it appends the identifier it is called with to a log, so the
  log tells how often it ran and with what.
\<close>

definition recordQuickView :: "int \<Rightarrow> int list \<Rightarrow> int list" where
  "recordQuickView i calls = calls @ [i]"

text \<open>
  A mounted card: its current props, its \<^verbatim>\<open>imageLoading\<close> state (\<^verbatim>\<open>useState(true)\<close>,
  line 35) and the state of its parent. It is re-rendered with new props, or one of
  the handlers of its tree fires.
\<close>

record ('n, 'w) Card =
  cardProps :: "('n, 'w) ProductCardProps"
  imageLoading :: bool
  parent :: 'w

datatype ('n, 'w) card_event =
    Rerender "('n, 'w) ProductCardProps"
  | Fire handler event

definition mountCard :: "('n, 'w) ProductCardProps \<Rightarrow> 'w \<Rightarrow> ('n, 'w) Card" where
  "mountCard props w = \<lparr>cardProps = props, imageLoading = True, parent = w\<rparr>"

fun cardStep :: "('n, 'w) Card \<Rightarrow> ('n, 'w) card_event \<Rightarrow> ('n, 'w) Card" where
  "cardStep c (Rerender props) = c\<lparr>cardProps := props\<rparr>"
| "cardStep c (Fire SetImageLoadingFalse e) = c\<lparr>imageLoading := False\<rparr>"
| "cardStep c (Fire OnLikeToggle e) =
     (case onLikeToggle (cardProps c) of
        None \<Rightarrow> c
      | Some f \<Rightarrow> c\<lparr>parent := f (parent c)\<rparr>)"
| "cardStep c (Fire HandleQuickView e) =
     (case product (cardProps c) of
        None \<Rightarrow> c
      | Some p \<Rightarrow> c\<lparr>parent := snd (handleQuickView (cardProps c) p e (parent c))\<rparr>)"




section \<open>HomePage\<close>

text \<open>
  The page of the catalog (the second source file, lines 23-66). What the request
  gives back: the promise of \<^verbatim>\<open>fetch\<close> rejects, or it resolves with a response that
  has a status flag and a body; \<open>json = None\<close> is a body that \<^verbatim>\<open>res.json()\<close> rejects.
\<close>

record 'n response =
  ok :: bool
  json :: "'n Product list option"

datatype 'n fetch_result = Rejected | Resolved "'n response"

text \<open>
  Nothing catches a rejection, neither in \<^verbatim>\<open>fetchFeaturedProducts\<close> nor in the
  effect that calls it, so it ends as an unhandled rejection.
\<close>

datatype fault = UnhandledRejection

text \<open>What the function asks of the outside: a state write or a line on the console.\<close>

datatype 'n effect = SetProducts "'n Product list" | ConsoleError string

text \<open>\<^verbatim>\<open>fetchFeaturedProducts\<close> (lines 26-34), from the point where the request settles.\<close>

definition fetchFeaturedProducts :: "'n fetch_result \<Rightarrow> fault + 'n effect list" where
  "fetchFeaturedProducts r =
     (case r of
        Rejected \<Rightarrow> Inl UnhandledRejection
      | Resolved res \<Rightarrow>
          if ok res
          then (case json res of
                  None \<Rightarrow> Inl UnhandledRejection
                | Some data \<Rightarrow> Inr [SetProducts data])
          else Inr [ConsoleError ''Product fetch error''])"

text \<open>
  An element \<^verbatim>\<open><ProductCard key={product.id} product={product} />\<close> (lines 53 and 60),
  and the props the card receives from it: the product, everything else omitted.
\<close>

record 'n CardElement =
  key :: int
  cardProduct :: "'n Product"

definition cardElement :: "'n Product \<Rightarrow> 'n CardElement" where
  "cardElement p = \<lparr>key = product_id p, cardProduct = p\<rparr>"

definition propsOf :: "'n CardElement \<Rightarrow> ('n, 'w) ProductCardProps" where
  "propsOf el =
     \<lparr>product = Some (cardProduct el), isLiked = None, onLikeToggle = None,
      viewMode = None, onQuickView = None\<rparr>"

text \<open>The two lists of cards (lines 52-54 and 59-61).\<close>

definition featuredSection :: "'n Product list \<Rightarrow> 'n CardElement node list" where
  "featuredSection products = map (\<lambda>product. Component (cardElement product)) products"

definition allProductsSection :: "'n Product list \<Rightarrow> 'n CardElement node list" where
  "allProductsSection products = map (\<lambda>product. Component (cardElement product)) products"

text \<open>The three headings (lines 45, 50 and 57), in UTF-8.\<close>

definition categoriesHeading :: string where
  "categoriesHeading =
     [CHR 0xD0, CHR 0x90, CHR 0xD0, CHR 0xBD, CHR 0xD0, CHR 0xB3, CHR 0xD0, CHR 0xB8,
      CHR 0xD0, CHR 0xBB, CHR 0xD0, CHR 0xBB, CHR 0xD0, CHR 0xB0, CHR 0xD0, CHR 0xB0,
      CHR 0xD1, CHR 0x80, CHR 0x20, CHR 0xD0, CHR 0xB4, CHR 0xD1, CHR 0x8D, CHR 0xD0,
      CHR 0xBB, CHR 0xD0, CHR 0xB3, CHR 0xD2, CHR 0xAF, CHR 0xD2, CHR 0xAF, CHR 0xD1,
      CHR 0x80, CHR 0x20, CHR 0xD1, CHR 0x85, CHR 0xD1, CHR 0x8D, CHR 0xD1, CHR 0x81,
      CHR 0xD1, CHR 0x8D, CHR 0xD1, CHR 0x85]"

definition featuredHeading :: string where
  "featuredHeading =
     [CHR 0xD0, CHR 0x9E, CHR 0xD0, CHR 0xBD, CHR 0xD1, CHR 0x86, CHR 0xD0, CHR 0xBB,
      CHR 0xD0, CHR 0xBE, CHR 0xD1, CHR 0x85, CHR 0x20, CHR 0xD0, CHR 0xB1, CHR 0xD2,
      CHR 0xAF, CHR 0xD1, CHR 0x82, CHR 0xD1, CHR 0x8D, CHR 0xD1, CHR 0x8D, CHR 0xD0,
      CHR 0xB3, CHR 0xD0, CHR 0xB4, CHR 0xD1, CHR 0x8D, CHR 0xD1, CHR 0x85, CHR 0xD2,
      CHR 0xAF, CHR 0xD2, CHR 0xAF, CHR 0xD0, CHR 0xBD]"

definition allProductsHeading :: string where
  "allProductsHeading =
     [CHR 0xD0, CHR 0x91, CHR 0xD2, CHR 0xAF, CHR 0xD1, CHR 0x85, CHR 0x20, CHR 0xD0,
      CHR 0xB1, CHR 0xD2, CHR 0xAF, CHR 0xD1, CHR 0x82, CHR 0xD1, CHR 0x8D, CHR 0xD1,
      CHR 0x8D, CHR 0xD0, CHR 0xB3, CHR 0xD0, CHR 0xB4, CHR 0xD1, CHR 0x8D, CHR 0xD1,
      CHR 0x85, CHR 0xD2, CHR 0xAF, CHR 0xD2, CHR 0xAF, CHR 0xD0, CHR 0xBD]"

text \<open>What the page renders for a value of its \<^verbatim>\<open>products\<close> state (lines 40-65).\<close>

definition HomePage :: "'n Product list \<Rightarrow> 'n CardElement node" where
  "HomePage products =
     Elem ''main'' [ClassName ''mr-16 ml-16'']
       [Elem ''div'' [ClassName ''pr-4 pl-4'']
          [Elem ''Slider'' [] [],
           Elem ''h1'' [ClassName ''primary-header pt-8''] [Text categoriesHeading],
           Elem ''div''
             [ClassName
                ''touch-auto flex w-full overflow-x-scroll flex-nowrap -hide gap-4 py-4'']
             [Elem ''Category'' [Layout ''row''] []],
           Elem ''h1'' [ClassName ''primary-header pt-8''] [Text featuredHeading],
           Elem ''div'' [ClassName ''product-list flex flex-wrap p-2 gap-4 rounded-lg mb-8'']
             (featuredSection products),
           Elem ''h1'' [ClassName ''primary-header''] [Text allProductsHeading],
           Elem ''div'' [ClassName ''product-list flex flex-wrap p-2 gap-4 rounded-lg mb-8'']
             (allProductsSection products)]]"

text \<open>The sections of a page: each heading with the children of the element after it.\<close>

fun headed :: "'c node list \<Rightarrow> (string \<times> 'c node list) list" where
  "headed (a # b # ns) =
     (if hasTag ''h1'' a then [(textContent a, children b)] else []) @ headed (b # ns)"
| "headed ns = []"

definition sections :: "'c node \<Rightarrow> (string \<times> 'c node list) list" where
  "sections t = concat (map (\<lambda>n. headed (children n)) (subnodes t))"

text \<open>
  A page instance: whether it is still mounted, its \<^verbatim>\<open>products\<close> state
  (\<^verbatim>\<open>useState([])\<close>, line 24), the lines written to the console, and the state writes
  that reached it after it was unmounted. The effect of lines 36-38 has no cleanup
  and an empty dependency list: one request per mount, and nothing withdraws it.
\<close>

record 'n Page =
  mounted :: bool
  products :: "'n Product list"
  console :: "string list"
  lateWrites :: "'n Product list list"

definition mountPage :: "'n Page" where
  "mountPage = \<lparr>mounted = True, products = [], console = [], lateWrites = []\<rparr>"

text \<open>
  The framework applies a state write to a mounted instance and drops one that reaches
  an unmounted instance; the model keeps a record of the dropped ones.
\<close>

fun applyEffect :: "'n Page \<Rightarrow> 'n effect \<Rightarrow> 'n Page" where
  "applyEffect pg (SetProducts data) =
     (if mounted pg then pg\<lparr>products := data\<rparr>
      else pg\<lparr>lateWrites := lateWrites pg @ [data]\<rparr>)"
| "applyEffect pg (ConsoleError msg) = pg\<lparr>console := console pg @ [msg]\<rparr>"

datatype 'n page_event = Unmount | FetchSettled "'n fetch_result"

fun pageStep :: "'n Page \<Rightarrow> 'n page_event \<Rightarrow> fault + 'n Page" where
  "pageStep pg Unmount = Inr (pg\<lparr>mounted := False\<rparr>)"
| "pageStep pg (FetchSettled r) =
     (case fetchFeaturedProducts r of
        Inl f \<Rightarrow> Inl f
      | Inr effects \<Rightarrow> Inr (foldl applyEffect pg effects))"

fun pageRun :: "'n Page \<Rightarrow> 'n page_event list \<Rightarrow> fault + 'n Page" where
  "pageRun pg [] = Inr pg"
| "pageRun pg (ev # evs) =
     (case pageStep pg ev of Inl f \<Rightarrow> Inl f | Inr pg' \<Rightarrow> pageRun pg' evs)"

section \<open>Reading the controls of a card\<close>

fun titleProps :: "attr list \<Rightarrow> string list" where
  "titleProps [] = []"
| "titleProps (Title s # as) = s # titleProps as"
| "titleProps (a # as) = titleProps as"

text \<open>The elements whose click prop is \<^verbatim>\<open>handleQuickView\<close>.\<close>

definition quickViewButtons :: "'c node \<Rightarrow> 'c node list" where
  "quickViewButtons t =
     filter (\<lambda>n. clickProps (attrs n) = [Some HandleQuickView]) (subnodes t)"

section \<open>Reading a printed number back\<close>

text \<open>
  What a test does with the number inside a label: it reads the digits back. Only the
  decimal form without leading zeros is read, with an optional minus sign before a
  number that is not zero.
\<close>

definition digit_value :: "char \<Rightarrow> nat option" where
  "digit_value =
     map_of [(CHR ''0'', 0), (CHR ''1'', 1), (CHR ''2'', 2), (CHR ''3'', 3), (CHR ''4'', 4),
             (CHR ''5'', 5), (CHR ''6'', 6), (CHR ''7'', 7), (CHR ''8'', 8), (CHR ''9'', 9)]"

fun read_digits :: "nat \<Rightarrow> string \<Rightarrow> nat option" where
  "read_digits acc [] = Some acc"
| "read_digits acc (c # cs) =
     (case digit_value c of None \<Rightarrow> None | Some d \<Rightarrow> read_digits (10 * acc + d) cs)"

definition read_nat :: "string \<Rightarrow> nat option" where
  "read_nat s =
     (case s of
        [] \<Rightarrow> None
      | c # cs \<Rightarrow> if c = CHR ''0'' \<and> cs \<noteq> [] then None else read_digits 0 s)"

definition read_number :: "string \<Rightarrow> int option" where
  "read_number s =
     (case s of
        [] \<Rightarrow> None
      | c # cs \<Rightarrow>
          if c = CHR ''-''
          then (case read_nat cs of
                  None \<Rightarrow> None
                | Some n \<Rightarrow> if n = 0 then None else Some (- int n))
          else map_option int (read_nat s))"

section \<open>Reading the category line and the handlers of a card\<close>

definition categoryLine :: "'c node \<Rightarrow> string list" where
  "categoryLine t = take 1 (map textContent (paragraphs t))"



section \<open>The life of a card\<close>







section \<open>Example data\<close>

text \<open>
  The product of the end-to-end scenarios, a runtime that prints an integer price in
  decimal and the large number of the examples, \<open>10\<^sup>2\<^sup>1\<close>, as the engines do, a
  click that nothing has handled yet, and the props of a card in a given view mode
  with a given quick-view callback.
\<close>

definition sampleProduct :: "int Product" where
  "sampleProduct =
     \<lparr>product_id = 1, name = ''A'', category = None, description = ''First product'',
      price = 1000, stock = 0, imageUrl = ''/a.png'',
      createdAt = DateString ''2024-01-01T00:00:00.000Z'', updatedAt = DateValue 0\<rparr>"

definition sampleRuntime :: "int runtime" where
  "sampleRuntime = \<lparr>toLocaleString = decimal, largeNumberToString = (\<lambda>i. ''1e+21'')\<rparr>"

definition click :: event where
  "click = \<lparr>defaultPrevented = False, propagationStopped = False\<rparr>"

definition sampleProps ::
  "int Product option \<Rightarrow> string option \<Rightarrow> (int \<Rightarrow> int list \<Rightarrow> int list) option
   \<Rightarrow> (int, int list) ProductCardProps" where
  "sampleProps p mode callback =
     \<lparr>product = p, isLiked = None, onLikeToggle = None, viewMode = mode,
      onQuickView = callback\<rparr>"

section \<open>What the two branches contain\<close>

lemmas card_defs = ProductCard_def listView_def gridView_def viewModeOrDefault_def
  spinner_def productImage_def outOfStockOverlay_def likeClick_def

lemma imageLinks_list:
  "map textContent (imageLinks (listView rt props p il)) =
     [if isOutOfStock (stock p) then ''Out of Stock'' else []]"
  by (simp add: imageLinks_def card_defs)

lemma imageLinks_grid:
  "map textContent (imageLinks (gridView rt props p il)) =
     [if isOutOfStock (stock p) then ''Out of Stock'' else []]"
  by (simp add: imageLinks_def card_defs)

lemma stockStatusSpans_list:
  "stockStatusSpans (listView rt props p il) =
     [Elem ''span'' [ClassName (''text-sm font-medium '' @ stockStatusColor p)]
        [Text (stockStatusText rt p)]]"
  by (simp add: stockStatusSpans_def card_defs)

lemma stockStatusSpans_grid:
  "stockStatusSpans (gridView rt props p il) =
     [Elem ''span'' [ClassName (''text-xs font-medium '' @ stockStatusColor p)]
        [Text (stockStatusText rt p)]]"
  by (simp add: stockStatusSpans_def card_defs)

lemma addToCartButtons_list:
  "map (\<lambda>b. (disabledProps (attrs b), textContent b))
       (addToCartButtons (listView rt props p il)) =
     [([isOutOfStock (stock p)], addToCartText p)]"
  by (simp add: addToCartButtons_def card_defs)

lemma addToCartButtons_grid:
  "map (\<lambda>b. (disabledProps (attrs b), textContent b))
       (addToCartButtons (gridView rt props p il)) =
     [([isOutOfStock (stock p)], addToCartText p)]"
  by (simp add: addToCartButtons_def card_defs)

lemma paragraphs_list:
  "map textContent (paragraphs (listView rt props p il)) = [categoryLabel p, description p]"
  by (simp add: paragraphs_def card_defs)

lemma paragraphs_grid:
  "map textContent (paragraphs (gridView rt props p il)) = [categoryLabel p]"
  by (simp add: paragraphs_def card_defs)

lemma ProductCard_list:
  "product props = Some p \<Longrightarrow> viewMode props = Some ''list'' \<Longrightarrow>
   ProductCard rt props il = Some (listView rt props p il)"
  by (simp add: ProductCard_def viewModeOrDefault_def)

lemma ProductCard_grid:
  "product props = Some p \<Longrightarrow> viewMode props \<noteq> Some ''list'' \<Longrightarrow>
   ProductCard rt props il = Some (gridView rt props p il)"
  by (auto simp: ProductCard_def viewModeOrDefault_def split: option.splits)

lemma disabled_list:
  "map (\<lambda>n. disabledProps (attrs n)) (addToCartButtons (listView rt props p il)) =
     [[isOutOfStock (stock p)]]"
  by (simp add: addToCartButtons_def card_defs)

lemma disabled_grid:
  "map (\<lambda>n. disabledProps (attrs n)) (addToCartButtons (gridView rt props p il)) =
     [[isOutOfStock (stock p)]]"
  by (simp add: addToCartButtons_def card_defs)

lemma stockStatusColor_thresholds:
  "stockStatusColor p =
     (if stock p \<le> 0 then ''text-red-600''
      else if stock p \<le> 5 then ''text-orange-600'' else ''text-green-600'')"
  by (simp add: stockStatusColor_def isOutOfStock_def isLowStock_def)

lemma addToCartColor_thresholds:
  "addToCartColor p =
     (if stock p \<le> 0 then ''bg-gray-200 text-gray-500 cursor-not-allowed''
      else ''bg-rose-500 text-white hover:bg-rose-600'')"
  by (simp add: addToCartColor_def isOutOfStock_def)

lemma buttonClass_list:
  "map (\<lambda>n. classNames (attrs n)) (addToCartButtons (listView rt props p il)) =
     [[''px-4 py-2 rounded-lg text-sm font-medium transition-colors '' @ addToCartColor p]]"
  by (simp add: addToCartButtons_def card_defs)

lemma buttonClass_grid:
  "map (\<lambda>n. classNames (attrs n)) (addToCartButtons (gridView rt props p il)) =
     [[''w-full py-2 text-sm rounded-lg font-medium transition-colors '' @ addToCartColor p]]"
  by (simp add: addToCartButtons_def card_defs)

section \<open>Stock classes and the decisions that depend on them\<close>

text \<open>
  Claim C1. For every integer stock \<open>s\<close> (negative values included) the card is
  out of stock exactly when \<open>s \<le> 0\<close>, low on stock exactly when \<open>0 < s \<le> 5\<close> and in
  stock exactly when \<open>s > 5\<close>; one of the three classes holds and no two hold together.
  Every decision of a rendered card that depends on the stock follows these classes,
  in the list branch and in the grid branch alike: the overlay on the image is there
  exactly for \<open>s \<le> 0\<close>, the colour of the stock status is red, orange or green by
  class, and the add-to-cart button is disabled and greyed exactly for \<open>s \<le> 0\<close>.
  (The texts of the status and of the button follow in the next section.)
\<close>

theorem stock_classification:
  "(isOutOfStock s \<longleftrightarrow> s \<le> 0) \<and> (isLowStock s \<longleftrightarrow> 0 < s \<and> s \<le> 5)
   \<and> (isInStock s \<longleftrightarrow> 5 < s)
   \<and> (isOutOfStock s \<or> isLowStock s \<or> isInStock s)
   \<and> \<not> (isOutOfStock s \<and> isLowStock s) \<and> \<not> (isOutOfStock s \<and> isInStock s)
   \<and> \<not> (isLowStock s \<and> isInStock s)
   \<and> (product props = Some p \<and> stock p = s \<longrightarrow>
        (\<exists>t. ProductCard rt props il = Some (t :: 'c node)
           \<and> map textContent (imageLinks t) = [if s \<le> 0 then ''Out of Stock'' else []]
           \<and> map (\<lambda>n. classNames (attrs n)) (stockStatusSpans t) =
               [[(if viewMode props = Some ''list'' then ''text-sm font-medium ''
                  else ''text-xs font-medium '')
                 @ (if s \<le> 0 then ''text-red-600''
                    else if s \<le> 5 then ''text-orange-600'' else ''text-green-600'')]]
           \<and> map (\<lambda>n. disabledProps (attrs n)) (addToCartButtons t) = [[s \<le> 0]]
           \<and> map (\<lambda>n. classNames (attrs n)) (addToCartButtons t) =
               [[(if viewMode props = Some ''list''
                  then ''px-4 py-2 rounded-lg text-sm font-medium transition-colors ''
                  else ''w-full py-2 text-sm rounded-lg font-medium transition-colors '')
                 @ (if s \<le> 0 then ''bg-gray-200 text-gray-500 cursor-not-allowed''
                    else ''bg-rose-500 text-white hover:bg-rose-600'')]]))"
proof -
  have part: "(isOutOfStock s \<longleftrightarrow> s \<le> 0) \<and> (isLowStock s \<longleftrightarrow> 0 < s \<and> s \<le> 5)
      \<and> (isInStock s \<longleftrightarrow> 5 < s)"
    by (auto simp: isOutOfStock_def isLowStock_def isInStock_def)
  have excl: "(isOutOfStock s \<or> isLowStock s \<or> isInStock s)
      \<and> \<not> (isOutOfStock s \<and> isLowStock s) \<and> \<not> (isOutOfStock s \<and> isInStock s)
      \<and> \<not> (isLowStock s \<and> isInStock s)"
    by (auto simp: isOutOfStock_def isLowStock_def isInStock_def)
  have rend: "\<exists>t. ProductCard rt props il = Some (t :: 'c node)
           \<and> map textContent (imageLinks t) = [if s \<le> 0 then ''Out of Stock'' else []]
           \<and> map (\<lambda>n. classNames (attrs n)) (stockStatusSpans t) =
               [[(if viewMode props = Some ''list'' then ''text-sm font-medium ''
                  else ''text-xs font-medium '')
                 @ (if s \<le> 0 then ''text-red-600''
                    else if s \<le> 5 then ''text-orange-600'' else ''text-green-600'')]]
           \<and> map (\<lambda>n. disabledProps (attrs n)) (addToCartButtons t) = [[s \<le> 0]]
           \<and> map (\<lambda>n. classNames (attrs n)) (addToCartButtons t) =
               [[(if viewMode props = Some ''list''
                  then ''px-4 py-2 rounded-lg text-sm font-medium transition-colors ''
                  else ''w-full py-2 text-sm rounded-lg font-medium transition-colors '')
                 @ (if s \<le> 0 then ''bg-gray-200 text-gray-500 cursor-not-allowed''
                    else ''bg-rose-500 text-white hover:bg-rose-600'')]]"
    if pr: "product props = Some p" and st: "stock p = s"
  proof (cases "viewMode props = Some ''list''")
    case True
    have "ProductCard rt props il = Some (listView rt props p il :: 'c node)"
      by (rule ProductCard_list [OF pr True])
    moreover have "map textContent (imageLinks (listView rt props p il :: 'c node)) =
        [if s \<le> 0 then ''Out of Stock'' else []]"
      using st by (simp only: imageLinks_list isOutOfStock_def)
    moreover have
      "map (\<lambda>n. classNames (attrs n)) (stockStatusSpans (listView rt props p il :: 'c node)) =
         [[''text-sm font-medium ''
           @ (if s \<le> 0 then ''text-red-600''
              else if s \<le> 5 then ''text-orange-600'' else ''text-green-600'')]]"
      using st by (simp add: stockStatusSpans_list stockStatusColor_thresholds)
    moreover have
      "map (\<lambda>n. disabledProps (attrs n)) (addToCartButtons (listView rt props p il :: 'c node)) =
         [[s \<le> 0]]"
      using st by (simp only: disabled_list isOutOfStock_def)
    moreover have
      "map (\<lambda>n. classNames (attrs n)) (addToCartButtons (listView rt props p il :: 'c node)) =
         [[''px-4 py-2 rounded-lg text-sm font-medium transition-colors ''
           @ (if s \<le> 0 then ''bg-gray-200 text-gray-500 cursor-not-allowed''
              else ''bg-rose-500 text-white hover:bg-rose-600'')]]"
      using st by (simp only: buttonClass_list addToCartColor_thresholds)
    ultimately show ?thesis using True by simp
  next
    case False
    have "ProductCard rt props il = Some (gridView rt props p il :: 'c node)"
      by (rule ProductCard_grid [OF pr False])
    moreover have "map textContent (imageLinks (gridView rt props p il :: 'c node)) =
        [if s \<le> 0 then ''Out of Stock'' else []]"
      using st by (simp only: imageLinks_grid isOutOfStock_def)
    moreover have
      "map (\<lambda>n. classNames (attrs n)) (stockStatusSpans (gridView rt props p il :: 'c node)) =
         [[''text-xs font-medium ''
           @ (if s \<le> 0 then ''text-red-600''
              else if s \<le> 5 then ''text-orange-600'' else ''text-green-600'')]]"
      using st by (simp add: stockStatusSpans_grid stockStatusColor_thresholds)
    moreover have
      "map (\<lambda>n. disabledProps (attrs n)) (addToCartButtons (gridView rt props p il :: 'c node)) =
         [[s \<le> 0]]"
      using st by (simp only: disabled_grid isOutOfStock_def)
    moreover have
      "map (\<lambda>n. classNames (attrs n)) (addToCartButtons (gridView rt props p il :: 'c node)) =
         [[''w-full py-2 text-sm rounded-lg font-medium transition-colors ''
           @ (if s \<le> 0 then ''bg-gray-200 text-gray-500 cursor-not-allowed''
              else ''bg-rose-500 text-white hover:bg-rose-600'')]]"
      using st by (simp only: buttonClass_grid addToCartColor_thresholds)
    ultimately show ?thesis using False by simp
  qed
  show ?thesis
  proof (intro conjI impI)
    assume "product props = Some p \<and> stock p = s"
    then show "\<exists>t. ProductCard rt props il = Some (t :: 'c node)
           \<and> map textContent (imageLinks t) = [if s \<le> 0 then ''Out of Stock'' else []]
           \<and> map (\<lambda>n. classNames (attrs n)) (stockStatusSpans t) =
               [[(if viewMode props = Some ''list'' then ''text-sm font-medium ''
                  else ''text-xs font-medium '')
                 @ (if s \<le> 0 then ''text-red-600''
                    else if s \<le> 5 then ''text-orange-600'' else ''text-green-600'')]]
           \<and> map (\<lambda>n. disabledProps (attrs n)) (addToCartButtons t) = [[s \<le> 0]]
           \<and> map (\<lambda>n. classNames (attrs n)) (addToCartButtons t) =
               [[(if viewMode props = Some ''list''
                  then ''px-4 py-2 rounded-lg text-sm font-medium transition-colors ''
                  else ''w-full py-2 text-sm rounded-lg font-medium transition-colors '')
                 @ (if s \<le> 0 then ''bg-gray-200 text-gray-500 cursor-not-allowed''
                    else ''bg-rose-500 text-white hover:bg-rose-600'')]]"
      using rend by blast
  qed (use part excl in simp_all)
qed

text \<open>A low-stock product in the list branch: no overlay, orange status, button enabled.\<close>

theorem stock_classification_witness:
  "product (sampleProps (Some (sampleProduct\<lparr>stock := 3\<rparr>)) (Some ''list'') None)
     = Some (sampleProduct\<lparr>stock := 3\<rparr>)
   \<and> stock (sampleProduct\<lparr>stock := 3\<rparr>) = 3
   \<and> \<not> isOutOfStock 3 \<and> isLowStock 3 \<and> \<not> isInStock 3
   \<and> (\<exists>t. ProductCard sampleRuntime
              (sampleProps (Some (sampleProduct\<lparr>stock := 3\<rparr>)) (Some ''list'') None) True
            = Some (t :: unit node)
          \<and> map textContent (imageLinks t) = [[]]
          \<and> map (\<lambda>n. classNames (attrs n)) (stockStatusSpans t) =
              [[''text-sm font-medium text-orange-600'']]
          \<and> map (\<lambda>n. disabledProps (attrs n)) (addToCartButtons t) = [[False]]
          \<and> map (\<lambda>n. classNames (attrs n)) (addToCartButtons t) =
              [[''px-4 py-2 rounded-lg text-sm font-medium transition-colors bg-rose-500 text-white hover:bg-rose-600'']])"
  using stock_classification
    [of 3 "sampleProps (Some (sampleProduct\<lparr>stock := 3\<rparr>)) (Some ''list'') None"
        "sampleProduct\<lparr>stock := 3\<rparr>" sampleRuntime True]
  by (simp add: sampleProps_def sampleProduct_def isOutOfStock_def isLowStock_def
      isInStock_def)

section \<open>Printed numbers read back\<close>

text \<open>The digits printed for a safe integer read back as that integer.\<close>

lemma digit_value_digit_char: "d < 10 \<Longrightarrow> digit_value (digit_char d) = Some d"
proof -
  assume "d < 10"
  then have "d \<in> {0, 1, 2, 3, 4, 5, 6, 7, 8, 9}" by auto
  then show ?thesis
    by (auto simp: digit_value_def digit_char_def)
qed

lemma read_digits_append:
  "read_digits acc (s @ t) =
     (case read_digits acc s of None \<Rightarrow> None | Some v \<Rightarrow> read_digits v t)"
  by (induction s arbitrary: acc) (simp_all split: option.splits)

lemma read_digits_nat_to_string: "read_digits 0 (nat_to_string n) = Some n"
proof (induction n rule: nat_to_string.induct)
  case (1 n)
  show ?case
  proof (cases "n < 10")
    case True
    then show ?thesis
      by (simp add: nat_to_string.simps [of n] digit_value_digit_char)
  next
    case False
    with 1 have ih: "read_digits 0 (nat_to_string (n div 10)) = Some (n div 10)"
      by simp
    have "n mod 10 < 10" by simp
    with False ih show ?thesis
      by (simp add: nat_to_string.simps [of n] read_digits_append digit_value_digit_char)
  qed
qed

lemma nat_to_string_leading:
  "0 < n \<Longrightarrow> \<exists>d cs. nat_to_string n = digit_char d # cs \<and> 0 < d \<and> d < 10"
proof (induction n rule: nat_to_string.induct)
  case (1 n)
  show ?case
  proof (cases "n < 10")
    case True
    with 1(2) show ?thesis
      by (auto simp: nat_to_string.simps [of n])
  next
    case False
    then have "0 < n div 10" by simp
    with 1(1) False obtain d cs where "nat_to_string (n div 10) = digit_char d # cs" "0 < d" "d < 10"
      by blast
    with False show ?thesis
      by (auto simp: nat_to_string.simps [of n])
  qed
qed

lemma digit_char_not_zero: "0 < d \<Longrightarrow> d < 10 \<Longrightarrow> digit_char d \<noteq> CHR ''0'' \<and> digit_char d \<noteq> CHR ''-''"
  by (simp add: digit_char_def)

lemma digit_char_not_minus: "digit_char d \<noteq> CHR ''-''"
  by (simp add: digit_char_def)

lemma read_nat_nat_to_string: "read_nat (nat_to_string n) = Some n"
proof (cases "n = 0")
  case True
  then show ?thesis
    by (simp add: read_nat_def nat_to_string.simps [of 0] digit_char_def digit_value_def)
next
  case False
  then obtain d cs where s: "nat_to_string n = digit_char d # cs" and d: "0 < d" "d < 10"
    using nat_to_string_leading [of n] by auto
  from d have "digit_char d \<noteq> CHR ''0''"
    by (simp add: digit_char_not_zero)
  with s read_digits_nat_to_string [of n] show ?thesis
    by (simp add: read_nat_def)
qed

lemma nat_to_string_first: "\<exists>d cs. nat_to_string n = digit_char d # cs"
proof (cases "n = 0")
  case True
  then show ?thesis by (auto simp: nat_to_string.simps [of 0])
next
  case False
  then show ?thesis using nat_to_string_leading [of n] by auto
qed

lemma read_number_decimal: "read_number (decimal i) = Some i"
proof (cases "i < 0")
  case True
  then show ?thesis
    by (simp add: read_number_def decimal_def read_nat_nat_to_string)
next
  case False
  obtain d cs where s: "nat_to_string (nat i) = digit_char d # cs"
    using nat_to_string_first by blast
  with False read_nat_nat_to_string [of "nat i"] show ?thesis
    by (simp add: read_number_def decimal_def digit_char_not_minus)
qed

lemma read_number_safe:
  "- maxSafeInteger \<le> i \<Longrightarrow> i \<le> maxSafeInteger \<Longrightarrow> read_number (number_to_string rt i) = Some i"
  by (simp add: number_to_string_def read_number_decimal)

section \<open>The texts of the two branches\<close>

lemma stockStatusText_list:
  "map textContent (stockStatusSpans (listView rt props p il)) = [stockStatusText rt p]"
  by (simp add: stockStatusSpans_list)

lemma stockStatusText_grid:
  "map textContent (stockStatusSpans (gridView rt props p il)) = [stockStatusText rt p]"
  by (simp add: stockStatusSpans_grid)

lemma rendered_stock_outputs:
  assumes "product props = Some p"
  shows "\<exists>t. ProductCard rt props il = Some (t :: 'c node)
           \<and> map textContent (stockStatusSpans t) = [stockStatusText rt p]
           \<and> map (\<lambda>b. (disabledProps (attrs b), textContent b)) (addToCartButtons t) =
                [([isOutOfStock (stock p)], addToCartText p)]"
proof (cases "viewMode props = Some ''list''")
  case True
  show ?thesis
    by (intro exI [of _ "listView rt props p il"] conjI ProductCard_list [OF assms True]
        stockStatusText_list addToCartButtons_list)
next
  case False
  show ?thesis
    by (intro exI [of _ "gridView rt props p il"] conjI ProductCard_grid [OF assms False]
        stockStatusText_grid addToCartButtons_grid)
qed

lemma number_to_string_examples:
  "number_to_string rt 3 = ''3''" "number_to_string rt 12 = ''12''"
  "number_to_string sampleRuntime 1000000000000000000000 = ''1e+21''"
  by (simp_all add: number_to_string_def decimal_def maxSafeInteger_def nat_to_string.simps
      digit_char_def sampleRuntime_def)

section \<open>Stock labels and the add-to-cart button\<close>

text \<open>
  Claim C2. For every product and in either branch, the stock status beside the
  package icon and the add-to-cart button are decided by the class of the stock: out
  of stock gives the status "Out of Stock" and a disabled button labelled
  "Unavailable"; low stock \<open>N\<close> gives the status "Only N left"; in stock \<open>N\<close> gives
  "N in stock" and an enabled button labelled "Add to Cart" (the button of a low-stock
  product is enabled and labelled "Add to Cart" as well). The \<open>N\<close> of the label is
  the stock as the template string prints it: for every low stock, and for every
  stock up to the largest safe integer, its decimal digits, which read back as the
  stock; beyond that, the text the runtime gives the number.
\<close>

theorem stock_outputs:
  assumes "product props = Some p"
  shows "\<exists>t. ProductCard rt props il = Some (t :: 'c node)
     \<and> (isOutOfStock (stock p) \<longrightarrow>
          map textContent (stockStatusSpans t) = [''Out of Stock'']
          \<and> map (\<lambda>b. (disabledProps (attrs b), textContent b)) (addToCartButtons t) =
               [([True], ''Unavailable'')])
     \<and> (isLowStock (stock p) \<longrightarrow>
          map textContent (stockStatusSpans t) =
            [''Only '' @ number_to_string rt (stock p) @ '' left'']
          \<and> read_number (number_to_string rt (stock p)) = Some (stock p)
          \<and> map (\<lambda>b. (disabledProps (attrs b), textContent b)) (addToCartButtons t) =
               [([False], ''Add to Cart'')])
     \<and> (isInStock (stock p) \<longrightarrow>
          map textContent (stockStatusSpans t) = [number_to_string rt (stock p) @ '' in stock'']
          \<and> (stock p \<le> maxSafeInteger \<longrightarrow>
                read_number (number_to_string rt (stock p)) = Some (stock p))
          \<and> (maxSafeInteger < stock p \<longrightarrow>
                number_to_string rt (stock p) = largeNumberToString rt (stock p))
          \<and> map (\<lambda>b. (disabledProps (attrs b), textContent b)) (addToCartButtons t) =
               [([False], ''Add to Cart'')])"
proof -
  from rendered_stock_outputs [OF assms, of rt il, where ?'c = 'c]
  obtain t :: "'c node" where t: "ProductCard rt props il = Some t"
    and lab: "map textContent (stockStatusSpans t) = [stockStatusText rt p]"
    and btn: "map (\<lambda>b. (disabledProps (attrs b), textContent b)) (addToCartButtons t) =
                [([isOutOfStock (stock p)], addToCartText p)]"
    by (elim exE conjE)
  have out: "isOutOfStock (stock p) \<Longrightarrow>
      stockStatusText rt p = ''Out of Stock'' \<and> addToCartText p = ''Unavailable''"
    by (simp add: stockStatusText_def addToCartText_def)
  have low: "isLowStock (stock p) \<Longrightarrow>
      stockStatusText rt p = ''Only '' @ number_to_string rt (stock p) @ '' left''
      \<and> addToCartText p = ''Add to Cart'' \<and> \<not> isOutOfStock (stock p)"
    by (simp add: stockStatusText_def addToCartText_def isLowStock_def isOutOfStock_def)
  have lowread: "isLowStock (stock p) \<Longrightarrow>
      read_number (number_to_string rt (stock p)) = Some (stock p)"
    by (rule read_number_safe) (simp_all add: isLowStock_def maxSafeInteger_def)
  have ins: "isInStock (stock p) \<Longrightarrow>
      stockStatusText rt p = number_to_string rt (stock p) @ '' in stock''
      \<and> addToCartText p = ''Add to Cart'' \<and> \<not> isOutOfStock (stock p)"
    by (simp add: stockStatusText_def addToCartText_def isInStock_def)
  have insread: "isInStock (stock p) \<Longrightarrow> stock p \<le> maxSafeInteger \<Longrightarrow>
      read_number (number_to_string rt (stock p)) = Some (stock p)"
    by (rule read_number_safe)
       (simp_all add: isInStock_def isOutOfStock_def isLowStock_def maxSafeInteger_def)
  have large: "maxSafeInteger < stock p \<Longrightarrow>
      number_to_string rt (stock p) = largeNumberToString rt (stock p)"
    by (simp add: number_to_string_def)
  show ?thesis
    using t lab btn out low lowread ins insread large by auto
qed

text \<open>
  An empty stock in the list branch, a stock of 3 in the list and in the grid branch
  ("Only 3 left" in both), a stock of 12 in the grid branch, and a stock of
  \<open>10\<^sup>2\<^sup>1\<close>, which the sample runtime prints in the exponent form.
\<close>

theorem stock_outputs_witness:
  "(\<exists>t. ProductCard sampleRuntime (sampleProps (Some (sampleProduct\<lparr>stock := 0\<rparr>)) (Some ''list'') None) False = Some (t :: unit node)
      \<and> isOutOfStock (stock (sampleProduct\<lparr>stock := 0\<rparr>))
      \<and> map textContent (stockStatusSpans t) = [''Out of Stock'']
      \<and> map (\<lambda>b. (disabledProps (attrs b), textContent b)) (addToCartButtons t) = [([True], ''Unavailable'')])
   \<and> (\<exists>t. ProductCard sampleRuntime (sampleProps (Some (sampleProduct\<lparr>stock := 3\<rparr>)) (Some ''list'') None) False = Some (t :: unit node)
      \<and> isLowStock (stock (sampleProduct\<lparr>stock := 3\<rparr>))
      \<and> map textContent (stockStatusSpans t) = [''Only 3 left''])
   \<and> (\<exists>t. ProductCard sampleRuntime (sampleProps (Some (sampleProduct\<lparr>stock := 3\<rparr>)) None None) False = Some (t :: unit node)
      \<and> isLowStock (stock (sampleProduct\<lparr>stock := 3\<rparr>))
      \<and> map textContent (stockStatusSpans t) = [''Only 3 left''])
   \<and> (\<exists>t. ProductCard sampleRuntime (sampleProps (Some (sampleProduct\<lparr>stock := 12\<rparr>)) (Some ''grid'') None) False = Some (t :: unit node)
      \<and> isInStock (stock (sampleProduct\<lparr>stock := 12\<rparr>))
      \<and> stock (sampleProduct\<lparr>stock := 12\<rparr>) \<le> maxSafeInteger
      \<and> map textContent (stockStatusSpans t) = [''12 in stock'']
      \<and> map (\<lambda>b. (disabledProps (attrs b), textContent b)) (addToCartButtons t) = [([False], ''Add to Cart'')])
   \<and> (\<exists>t. ProductCard sampleRuntime (sampleProps (Some (sampleProduct\<lparr>stock := 1000000000000000000000\<rparr>)) (Some ''grid'') None) False = Some (t :: unit node)
      \<and> isInStock (stock (sampleProduct\<lparr>stock := 1000000000000000000000\<rparr>))
      \<and> maxSafeInteger < stock (sampleProduct\<lparr>stock := 1000000000000000000000\<rparr>)
      \<and> map textContent (stockStatusSpans t) = [''1e+21 in stock''])"
proof -
  have p: "product (sampleProps (Some q) m None) = Some q" for q m
    by (simp add: sampleProps_def)
  show ?thesis
    using stock_outputs [OF p, of sampleRuntime "sampleProduct\<lparr>stock := 0\<rparr>" "Some ''list''" False, where ?'c = unit]
      stock_outputs [OF p, of sampleRuntime "sampleProduct\<lparr>stock := 3\<rparr>" "Some ''list''" False, where ?'c = unit]
      stock_outputs [OF p, of sampleRuntime "sampleProduct\<lparr>stock := 3\<rparr>" None False, where ?'c = unit]
      stock_outputs [OF p, of sampleRuntime "sampleProduct\<lparr>stock := 12\<rparr>" "Some ''grid''" False, where ?'c = unit]
      stock_outputs [OF p, of sampleRuntime "sampleProduct\<lparr>stock := 1000000000000000000000\<rparr>" "Some ''grid''" False, where ?'c = unit]
    by (auto simp: number_to_string_examples isOutOfStock_def isLowStock_def isInStock_def
        maxSafeInteger_def)
qed

section \<open>The quick-view button of the two branches\<close>

lemma quickViewButtons_list:
  "map (\<lambda>b. (hasTag ''button'' b, titleProps (attrs b))) (quickViewButtons (listView rt props p il)) =
     [(True, [''Quick View''])]"
  by (simp add: quickViewButtons_def card_defs)

lemma quickViewButtons_grid:
  "map (\<lambda>b. (hasTag ''button'' b, titleProps (attrs b))) (quickViewButtons (gridView rt props p il)) =
     [(True, [''Quick View''])]"
  by (simp add: quickViewButtons_def card_defs)

lemma rendered_quick_view:
  assumes "product props = Some p"
  shows "\<exists>t. ProductCard rt props il = Some (t :: 'c node)
           \<and> map (\<lambda>b. (hasTag ''button'' b, titleProps (attrs b))) (quickViewButtons t) =
                [(True, [''Quick View''])]"
proof (cases "viewMode props = Some ''list''")
  case True
  show ?thesis
    by (intro exI [of _ "listView rt props p il"] conjI ProductCard_list [OF assms True]
        quickViewButtons_list)
next
  case False
  show ?thesis
    by (intro exI [of _ "gridView rt props p il"] conjI ProductCard_grid [OF assms False]
        quickViewButtons_grid)
qed

lemma branches_differ: "(listView rt props p il :: 'c node) \<noteq> gridView rt' props' p' il'"
  by (simp add: listView_def gridView_def)

section \<open>The quick-view control\<close>

text \<open>
  Claim C3, as it is written, fails when the \<^verbatim>\<open>onQuickView\<close> prop is omitted: the
  handler still prevents the default action and stops the propagation, but the guard
  \<^verbatim>\<open>if (onQuickView)\<close> leaves it with nothing to call, and the state of the parent
  stays as it was.
\<close>

theorem quick_view_without_callback:
  "onQuickView (sampleProps (Some sampleProduct) (Some ''grid'') None) = None
   \<and> handleQuickView (sampleProps (Some sampleProduct) (Some ''grid'') None) sampleProduct click [7]
       = (\<lparr>defaultPrevented = True, propagationStopped = True\<rparr>, [7])
   \<and> parent (cardStep (mountCard (sampleProps (Some sampleProduct) (Some ''grid'') None) [7])
                (Fire HandleQuickView click)) = [7]"
  by (simp add: sampleProps_def handleQuickView_def preventDefault_def stopPropagation_def
      click_def mountCard_def)

text \<open>
  Claim C3, amended. For every product and every combination of the optional props,
  a rendered card has exactly one control bound to \<^verbatim>\<open>handleQuickView\<close>, a button
  titled "Quick View". Activating it sets both flags of the event, whatever they were
  before. When \<^verbatim>\<open>onQuickView\<close> is supplied, it is called once, with the product's
  identifier as its only argument; when it is omitted, nothing is called.
\<close>

theorem quick_view_click:
  assumes "product props = Some p"
  shows "(\<exists>t. ProductCard rt props il = Some (t :: 'c node)
            \<and> map (\<lambda>b. (hasTag ''button'' b, titleProps (attrs b))) (quickViewButtons t) =
                 [(True, [''Quick View''])])
     \<and> fst (handleQuickView props p e w) = e\<lparr>defaultPrevented := True, propagationStopped := True\<rparr>
     \<and> (onQuickView props = None \<longrightarrow> snd (handleQuickView props p e w) = w)
     \<and> (\<forall>f. onQuickView props = Some f \<longrightarrow> snd (handleQuickView props p e w) = f (product_id p) w)
     \<and> cardStep \<lparr>cardProps = props, imageLoading = il, parent = w\<rparr> (Fire HandleQuickView e)
         = \<lparr>cardProps = props, imageLoading = il, parent = snd (handleQuickView props p e w)\<rparr>"
proof -
  have "fst (handleQuickView props p e w) = e\<lparr>defaultPrevented := True, propagationStopped := True\<rparr>"
    by (simp add: handleQuickView_def preventDefault_def stopPropagation_def)
  moreover have "onQuickView props = None \<longrightarrow> snd (handleQuickView props p e w) = w"
    by (simp add: handleQuickView_def)
  moreover have "\<forall>f. onQuickView props = Some f \<longrightarrow> snd (handleQuickView props p e w) = f (product_id p) w"
    by (simp add: handleQuickView_def)
  moreover have "cardStep \<lparr>cardProps = props, imageLoading = il, parent = w\<rparr> (Fire HandleQuickView e)
         = \<lparr>cardProps = props, imageLoading = il, parent = snd (handleQuickView props p e w)\<rparr>"
    using assms by simp
  ultimately show ?thesis
    using rendered_quick_view [OF assms, of rt il, where ?'c = 'c] by blast
qed

text \<open>
  A recording callback has one entry afterwards, the identifier 1 of the product;
  without a callback the log stays empty.
\<close>

theorem quick_view_click_witness:
  "product (sampleProps (Some sampleProduct) (Some ''list'') (Some recordQuickView)) = Some sampleProduct
   \<and> onQuickView (sampleProps (Some sampleProduct) (Some ''list'') (Some recordQuickView)) = Some recordQuickView
   \<and> handleQuickView (sampleProps (Some sampleProduct) (Some ''list'') (Some recordQuickView)) sampleProduct click []
       = (\<lparr>defaultPrevented = True, propagationStopped = True\<rparr>, [1])
   \<and> onQuickView (sampleProps (Some sampleProduct) None None) = None
   \<and> handleQuickView (sampleProps (Some sampleProduct) None None) sampleProduct click []
       = (\<lparr>defaultPrevented = True, propagationStopped = True\<rparr>, [])"
proof -
  have p: "product (sampleProps (Some q) m cb) = Some q" for q m cb
    by (simp add: sampleProps_def)
  have cb: "onQuickView (sampleProps q m cb) = cb" for q m cb
    by (simp add: sampleProps_def)
  show ?thesis
    using quick_view_click [OF p, of sampleRuntime sampleProduct "Some ''list''" "Some recordQuickView" True click "[]", where ?'c = unit]
      quick_view_click [OF p, of sampleRuntime sampleProduct None None True click "[]", where ?'c = unit]
    by (simp add: p cb prod_eq_iff click_def recordQuickView_def sampleProduct_def)
qed

section \<open>Absent product, missing category\<close>

text \<open>
  Claim C5. Without a product the component returns \<^verbatim>\<open>null\<close>, whatever the view mode,
  the other props and the image state are. The guard of line 37 comes before every
  access to a field of the product, so no step of the component can fail there: the
  component is a total function into "nothing or a tree".
\<close>

theorem absent_product_renders_nothing:
  "product props = None \<Longrightarrow> ProductCard rt props il = None"
  by (simp add: ProductCard_def)

theorem absent_product_renders_nothing_witness:
  "product (sampleProps None (Some ''list'') (Some recordQuickView)) = None
   \<and> ProductCard sampleRuntime (sampleProps None (Some ''list'') (Some recordQuickView)) True = (None :: unit node option)
   \<and> product (sampleProps None None None) = None
   \<and> ProductCard sampleRuntime (sampleProps None None None) False = (None :: unit node option)"
proof -
  have p: "product (sampleProps None m cb) = None" for m cb
    by (simp add: sampleProps_def)
  show ?thesis
    using absent_product_renders_nothing [OF p, of sampleRuntime "Some ''list''" "Some recordQuickView" True, where ?'c = unit]
      absent_product_renders_nothing [OF p, of sampleRuntime None None False, where ?'c = unit]
    by (simp add: p)
qed

text \<open>
  Claim C6, as it is written, names the literal "uncategorized". The string of lines
  96 and 218 is another one, so the category line of a product without a category is
  not that text, in the list branch and in the grid branch.
\<close>

theorem fallback_is_not_english:
  "map_option categoryLine
     (ProductCard sampleRuntime (sampleProps (Some sampleProduct) (Some ''list'') None) True
        :: unit node option) \<noteq> Some [''uncategorized'']
   \<and> map_option categoryLine
     (ProductCard sampleRuntime (sampleProps (Some sampleProduct) (Some ''grid'') None) True
        :: unit node option) \<noteq> Some [''uncategorized'']"
  by (simp add: ProductCard_def viewModeOrDefault_def sampleProps_def categoryLine_def
      paragraphs_list paragraphs_grid categoryLabel_def sampleProduct_def uncategorizedLabel_def)

text \<open>
  Claim C6, amended. For every product without a category, the category line of the
  rendered card (its first paragraph) is one fixed string, the same in the list
  branch and in the grid branch: the Mongolian word for "uncategorized", ten Cyrillic
  letters (U+0410 U+043D U+0433 U+0438 U+043B U+0430 U+043B U+0433 U+04AF U+0439),
  twenty bytes in UTF-8. A tree is rendered in either case.
\<close>

theorem missing_category_label:
  assumes "product props = Some p" and "category p = None"
  shows "\<exists>t. ProductCard rt props il = Some (t :: 'c node)
           \<and> categoryLine t =
               [[CHR 0xD0, CHR 0x90, CHR 0xD0, CHR 0xBD, CHR 0xD0, CHR 0xB3, CHR 0xD0, CHR 0xB8,
                 CHR 0xD0, CHR 0xBB, CHR 0xD0, CHR 0xB0, CHR 0xD0, CHR 0xBB, CHR 0xD0, CHR 0xB3,
                 CHR 0xD2, CHR 0xAF, CHR 0xD0, CHR 0xB9]]"
proof (cases "viewMode props = Some ''list''")
  case True
  have "categoryLine (listView rt props p il :: 'c node) =
               [[CHR 0xD0, CHR 0x90, CHR 0xD0, CHR 0xBD, CHR 0xD0, CHR 0xB3, CHR 0xD0, CHR 0xB8,
                 CHR 0xD0, CHR 0xBB, CHR 0xD0, CHR 0xB0, CHR 0xD0, CHR 0xBB, CHR 0xD0, CHR 0xB3,
                 CHR 0xD2, CHR 0xAF, CHR 0xD0, CHR 0xB9]]"
    using assms(2)
    by (simp add: categoryLine_def paragraphs_list categoryLabel_def uncategorizedLabel_def)
  with ProductCard_list [OF assms(1) True] show ?thesis by blast
next
  case False
  have "categoryLine (gridView rt props p il :: 'c node) =
               [[CHR 0xD0, CHR 0x90, CHR 0xD0, CHR 0xBD, CHR 0xD0, CHR 0xB3, CHR 0xD0, CHR 0xB8,
                 CHR 0xD0, CHR 0xBB, CHR 0xD0, CHR 0xB0, CHR 0xD0, CHR 0xBB, CHR 0xD0, CHR 0xB3,
                 CHR 0xD2, CHR 0xAF, CHR 0xD0, CHR 0xB9]]"
    using assms(2)
    by (simp add: categoryLine_def paragraphs_grid categoryLabel_def uncategorizedLabel_def)
  with ProductCard_grid [OF assms(1) False] show ?thesis by blast
qed

theorem missing_category_label_witness:
  "product (sampleProps (Some sampleProduct) (Some ''list'') None) = Some sampleProduct
   \<and> category sampleProduct = None
   \<and> (\<exists>t. ProductCard sampleRuntime (sampleProps (Some sampleProduct) (Some ''list'') None) True = Some (t :: unit node)
          \<and> categoryLine t =
               [[CHR 0xD0, CHR 0x90, CHR 0xD0, CHR 0xBD, CHR 0xD0, CHR 0xB3, CHR 0xD0, CHR 0xB8,
                 CHR 0xD0, CHR 0xBB, CHR 0xD0, CHR 0xB0, CHR 0xD0, CHR 0xBB, CHR 0xD0, CHR 0xB3,
                 CHR 0xD2, CHR 0xAF, CHR 0xD0, CHR 0xB9]])
   \<and> (\<exists>t. ProductCard sampleRuntime (sampleProps (Some sampleProduct) (Some ''grid'') None) True = Some (t :: unit node)
          \<and> categoryLine t =
               [[CHR 0xD0, CHR 0x90, CHR 0xD0, CHR 0xBD, CHR 0xD0, CHR 0xB3, CHR 0xD0, CHR 0xB8,
                 CHR 0xD0, CHR 0xBB, CHR 0xD0, CHR 0xB0, CHR 0xD0, CHR 0xBB, CHR 0xD0, CHR 0xB3,
                 CHR 0xD2, CHR 0xAF, CHR 0xD0, CHR 0xB9]])"
proof -
  have p: "product (sampleProps (Some q) m cb) = Some q" for q m cb
    by (simp add: sampleProps_def)
  have c: "category sampleProduct = None"
    by (simp add: sampleProduct_def)
  show ?thesis
    using missing_category_label [OF p c, of sampleRuntime "Some ''list''" None True, where ?'c = unit]
      missing_category_label [OF p c, of sampleRuntime "Some ''grid''" None True, where ?'c = unit]
    by (simp add: p c)
qed

section \<open>The view mode\<close>

text \<open>
  Claim C10, as it is written, fails on a render without a product: with the view
  mode \<^verbatim>\<open>'list'\<close> the component returns \<^verbatim>\<open>null\<close>, neither of the two branches.
\<close>

theorem absent_product_in_list_mode:
  "ProductCard sampleRuntime (sampleProps None (Some ''list'') None) True = (None :: unit node option)"
  by (simp add: ProductCard_def sampleProps_def)

text \<open>
  Claim C10, amended. Whenever a product is supplied, the list branch is rendered if
  and only if the view mode is exactly the string \<^verbatim>\<open>'list'\<close>; for every other value,
  and when the prop is omitted, the grid branch is rendered. The two branches are
  different trees, so exactly one of them is the result.
\<close>

theorem view_mode_branch:
  assumes "product props = Some p"
  shows "(ProductCard rt props il = Some (listView rt props p il :: 'c node) \<longleftrightarrow> viewMode props = Some ''list'')
     \<and> (ProductCard rt props il = Some (gridView rt props p il :: 'c node) \<longleftrightarrow> viewMode props \<noteq> Some ''list'')
     \<and> (listView rt props p il :: 'c node) \<noteq> gridView rt props p il
     \<and> (viewMode props = None \<longrightarrow> viewModeOrDefault props = ''grid'')"
proof (cases "viewMode props = Some ''list''")
  case True
  with ProductCard_list [OF assms True, of rt il, where ?'c = 'c]
    branches_differ [of rt props p il rt props p il, where ?'c = 'c]
  show ?thesis by simp
next
  case False
  with ProductCard_grid [OF assms False, of rt il, where ?'c = 'c]
    branches_differ [of rt props p il rt props p il, where ?'c = 'c]
  show ?thesis by (auto simp: viewModeOrDefault_def)
qed

text \<open>The modes \<^verbatim>\<open>'list'\<close>, omitted, and a string that is neither mode.\<close>

theorem view_mode_branch_witness:
  "ProductCard sampleRuntime (sampleProps (Some sampleProduct) (Some ''list'') None) True
     = Some (listView sampleRuntime (sampleProps (Some sampleProduct) (Some ''list'') None) sampleProduct True :: unit node)
   \<and> ProductCard sampleRuntime (sampleProps (Some sampleProduct) None None) True
     = Some (gridView sampleRuntime (sampleProps (Some sampleProduct) None None) sampleProduct True :: unit node)
   \<and> viewModeOrDefault (sampleProps (Some sampleProduct) None None) = ''grid''
   \<and> ProductCard sampleRuntime (sampleProps (Some sampleProduct) (Some ''table'') None) True
     = Some (gridView sampleRuntime (sampleProps (Some sampleProduct) (Some ''table'') None) sampleProduct True :: unit node)"
proof -
  have p: "product (sampleProps (Some q) m cb) = Some q" for q m cb
    by (simp add: sampleProps_def)
  have m: "viewMode (sampleProps q m cb) = m" for q m cb
    by (simp add: sampleProps_def)
  show ?thesis
    using view_mode_branch [OF p, of sampleRuntime sampleProduct "Some ''list''" None True, where ?'c = unit]
      view_mode_branch [OF p, of sampleRuntime sampleProduct None None True, where ?'c = unit]
      view_mode_branch [OF p, of sampleRuntime sampleProduct "Some ''table''" None True, where ?'c = unit]
    by (simp add: m)
qed


section \<open>Traces of a card\<close>







section \<open>The cards of the page\<close>

lemma components_cards: "concat (map components (map Component xs)) = xs"
  by (induction xs) simp_all

lemma headed_cards:
  "concat (map (\<lambda>n. headed (children n)) (concat (map subnodes (map Component xs)))) = []"
  by (induction xs) simp_all

lemma headed_Component: "headed (Component x # ns) = headed ns"
  by (cases ns) simp_all

lemma headed_only_cards: "headed (map Component xs) = []"
  by (induction xs) (simp_all add: headed_Component)

lemma card_sections: "featuredSection ps = map Component (map cardElement ps)"
  "allProductsSection ps = map Component (map cardElement ps)"
  by (simp_all add: featuredSection_def allProductsSection_def)

lemma sections_HomePage:
  "sections (HomePage ps) =
     [(categoriesHeading, [Elem ''Category'' [Layout ''row''] []]),
      (featuredHeading, featuredSection ps), (allProductsHeading, allProductsSection ps)]"
  by (simp add: sections_def HomePage_def card_sections headed_cards headed_only_cards
      del: map_map)

lemma components_HomePage: "components (HomePage ps) = map cardElement ps @ map cardElement ps"
  by (simp add: HomePage_def card_sections components_cards del: map_map)

section \<open>Cards after unmounting\<close>






section \<open>The image-loading state of a card\<close>



section \<open>The fetch of the page\<close>

text \<open>
  Claim C4. When the request resolves with a status that is not a success,
  \<^verbatim>\<open>fetchFeaturedProducts\<close> asks for one thing only, the line "Product fetch error"
  on the console: no state write, no fault. The state of the page is as before,
  whatever it was; on a page that has just been mounted the products are still the
  empty sequence and the page renders no card.
\<close>

theorem fetch_failure_leaves_state:
  assumes "\<not> ok res"
  shows "fetchFeaturedProducts (Resolved res) = Inr [ConsoleError ''Product fetch error'']
     \<and> pageStep pg (FetchSettled (Resolved res)) =
         Inr (pg\<lparr>console := console pg @ [''Product fetch error'']\<rparr>)
     \<and> (\<exists>pg'. pageRun mountPage [FetchSettled (Resolved res)] = Inr pg'
           \<and> products pg' = [] \<and> console pg' = [''Product fetch error'']
           \<and> lateWrites pg' = [] \<and> components (HomePage (products pg')) = [])"
proof -
  have f: "fetchFeaturedProducts (Resolved res) = Inr [ConsoleError ''Product fetch error'']"
    using assms by (simp add: fetchFeaturedProducts_def)
  have s: "pageStep pg (FetchSettled (Resolved res)) =
         Inr (pg\<lparr>console := console pg @ [''Product fetch error'']\<rparr>)" for pg :: "'a Page"
    by (simp add: f)
  have e: "components (HomePage ([] :: 'a Product list)) = []"
    by (simp add: HomePage_def featuredSection_def allProductsSection_def)
  have r: "pageRun mountPage [FetchSettled (Resolved res)] =
      Inr \<lparr>mounted = True, products = [], console = [''Product fetch error''],
           lateWrites = []\<rparr>"
    by (simp add: s mountPage_def del: pageStep.simps)
  show ?thesis
    by (simp only: f s r) (simp add: e)
qed

theorem fetch_failure_leaves_state_witness:
  "\<not> ok \<lparr>ok = False, json = Some [sampleProduct]\<rparr>
   \<and> pageRun mountPage [FetchSettled (Resolved \<lparr>ok = False, json = Some [sampleProduct]\<rparr>)]
       = Inr \<lparr>mounted = True, products = [], console = [''Product fetch error''], lateWrites = []\<rparr>"
proof -
  have h: "\<not> ok \<lparr>ok = False, json = Some [sampleProduct]\<rparr>" by simp
  show ?thesis
    using h fetch_failure_leaves_state [OF h, of mountPage, THEN conjunct2, THEN conjunct1]
    by (simp add: mountPage_def del: pageStep.simps)
qed




section \<open>The two sections of the page\<close>

text \<open>
  Claim C7. For every value of the products state, the section under the "featured"
  heading and the section under the "all products" heading hold the same list of card
  elements: one per product, in the order of the state, with the product's identifier
  as key and the product as the only prop. The view mode is omitted in both, so every
  card of either section renders its grid branch.
\<close>

theorem sections_render_same_cards:
  fixes ps :: "'n Product list"
  shows "featuredSection ps = allProductsSection ps
   \<and> sections (HomePage ps) =
       [(categoriesHeading, [Elem ''Category'' [Layout ''row''] []]),
        (featuredHeading, featuredSection ps), (allProductsHeading, allProductsSection ps)]
   \<and> components (HomePage ps) = map cardElement ps @ map cardElement ps
   \<and> map cardProduct (map cardElement ps) = ps
   \<and> (\<forall>el \<in> set (components (HomePage ps)).
        viewMode (propsOf el :: ('n, 'w) ProductCardProps) = None
        \<and> ProductCard rt (propsOf el :: ('n, 'w) ProductCardProps) il =
            Some (gridView rt (propsOf el :: ('n, 'w) ProductCardProps) (cardProduct el) il
                    :: 'c node))"
proof -
  have "featuredSection ps = allProductsSection ps"
    by (simp add: card_sections)
  moreover have "map cardProduct (map cardElement ps) = ps"
    by (induction ps) (simp_all add: cardElement_def)
  moreover have "viewMode (propsOf el :: ('n, 'w) ProductCardProps) = None
        \<and> ProductCard rt (propsOf el :: ('n, 'w) ProductCardProps) il =
            Some (gridView rt (propsOf el :: ('n, 'w) ProductCardProps) (cardProduct el) il
                    :: 'c node)" for el
    by (simp add: ProductCard_def viewModeOrDefault_def propsOf_def)
  ultimately show ?thesis
    by (simp only: sections_HomePage components_HomePage) simp
qed

text \<open>Two products: the keys of the cards of the page, and the second card's branch.\<close>

theorem sections_render_same_cards_witness:
  "featuredSection [sampleProduct, sampleProduct\<lparr>product_id := 2, stock := 3\<rparr>]
     = allProductsSection [sampleProduct, sampleProduct\<lparr>product_id := 2, stock := 3\<rparr>]
   \<and> map key (components (HomePage [sampleProduct, sampleProduct\<lparr>product_id := 2, stock := 3\<rparr>]))
       = [1, 2, 1, 2]
   \<and> ProductCard sampleRuntime
         (propsOf (cardElement (sampleProduct\<lparr>product_id := 2, stock := 3\<rparr>))
            :: (int, int list) ProductCardProps) True
       = Some (gridView sampleRuntime
                 (propsOf (cardElement (sampleProduct\<lparr>product_id := 2, stock := 3\<rparr>))
                    :: (int, int list) ProductCardProps)
                 (sampleProduct\<lparr>product_id := 2, stock := 3\<rparr>) True :: unit node)"
  using sections_render_same_cards
    [of "[sampleProduct, sampleProduct\<lparr>product_id := 2, stock := 3\<rparr>]" sampleRuntime True,
     where ?'w = "int list" and ?'c = unit]
  by (simp add: cardElement_def sampleProduct_def)


end
